theory Spec2Isabelle
  imports Complex_Main "HOL-Library.Sublist"
begin

section \<open>Climate dashboard: data pipeline of \<open>dashboard.py\<close>\<close>

text \<open>
  The dashboard is one Python script over a pandas table. The embedding keeps the
  script's names. Conventions used throughout:
  \<^item> a table (DataFrame) is the list of its rows, in row order;
  \<^item> a numeric cell is a \<open>real option\<close>: \<open>None\<close> is pandas' missing value NaN. The
    rounding of 64-bit floats is not modelled. Their range is, where a result depends
    on it: the normalisation and the correlation compute values of the type \<open>f64\<close>,
    which overflow to an infinity and underflow to zero as doubles do. The regression
    is in exact arithmetic, and what is stated of the scaler's statistics is stated
    for columns within the range of doubles;
  \<^item> a Python exception is a value \<open>Inl e\<close> of the result type \<open>error + 'a\<close>;
  \<^item> a library routine whose result is not computed by the script (the date parser,
    the seeded random generator, the linear solvers) is an argument of the functions
    that call it.
\<close>

subsection \<open>Data model\<close>

datatype error = ValueError | TypeError | IndexError

text \<open>A parsed date: year, month and day.\<close>

type_synonym timestamp = "int \<times> nat \<times> nat"

text \<open>
  One row of the CSV file. The \<open>Date\<close> cell is text in the file and a timestamp after
  loading, hence the type parameter.
\<close>

record 'd climate_row =
  Date :: 'd
  Country :: "string option"
  Temperature :: "real option"
  CO2_Emissions :: "real option"
  Sea_Level_Rise :: "real option"
  Precipitation :: "real option"
  Humidity :: "real option"
  Wind_Speed :: "real option"

type_synonym csv_row = "string option climate_row"

text \<open>A row of the loaded table \<open>df\<close>: the parsed date and the three derived columns.\<close>

record obs = "timestamp option climate_row" +
  Year :: "int option"
  Month :: "nat option"
  MonthName :: "string option"

subsection \<open>Missing values\<close>

text \<open>\<open>Series.dropna()\<close>: the present values, in order.\<close>

fun dropna :: "'a option list \<Rightarrow> 'a list" where
  "dropna [] = []"
| "dropna (None # xs) = dropna xs"
| "dropna (Some x # xs) = x # dropna xs"

text \<open>
  \<open>Series.min()\<close>, \<open>Series.max()\<close> and \<open>Series.mean()\<close> skip missing values and
  return NaN when no value is present; they do not raise on an empty series.
\<close>

definition series_min :: "real option list \<Rightarrow> real option" where
  "series_min s = (case dropna s of [] \<Rightarrow> None | x # xs \<Rightarrow> Some (fold min xs x))"

definition series_max :: "real option list \<Rightarrow> real option" where
  "series_max s = (case dropna s of [] \<Rightarrow> None | x # xs \<Rightarrow> Some (fold max xs x))"

definition series_mean :: "real option list \<Rightarrow> real option" where
  "series_mean s = (case dropna s of [] \<Rightarrow> None | x # xs \<Rightarrow> Some (sum_list (x # xs) / real (length (x # xs))))"

subsection \<open>Doubles\<close>

text \<open>
  The result of an arithmetic operation on doubles: a finite number, an infinity or
  NaN. The sign of a zero is not kept.
\<close>

datatype f64 = Finite real | PInf | NInf | NaN

definition cell :: "real option \<Rightarrow> f64" where
  "cell v = (case v of None \<Rightarrow> NaN | Some x \<Rightarrow> Finite x)"

text \<open>
  The largest double is \<open>2^1024 - 2^971\<close>; an exact result of magnitude
  \<open>2^1024 - 2^970\<close> or more rounds to an infinity.
\<close>

definition overflow_threshold :: real where
  "overflow_threshold = 2 ^ 1024 - 2 ^ 970"

text \<open>
  The double for the exact sum or difference \<open>r\<close> of two doubles. A sum of doubles
  is a multiple of the smallest positive double, \<open>2^-1074\<close>, so it never underflows.
\<close>

definition f64_sum :: "real \<Rightarrow> f64" where
  "f64_sum r =
     (if r \<ge> overflow_threshold then PInf
      else if r \<le> - overflow_threshold then NInf
      else Finite r)"

text \<open>
  The double for the exact product or quotient \<open>r\<close> of two doubles: a magnitude of at
  most \<open>2^-1075\<close>, half the smallest positive double, rounds to zero.
\<close>

definition f64_prod :: "real \<Rightarrow> f64" where
  "f64_prod r =
     (if r \<ge> overflow_threshold then PInf
      else if r \<le> - overflow_threshold then NInf
      else if \<bar>r\<bar> \<le> 1 / 2 ^ 1075 then Finite 0
      else Finite r)"

text \<open>A number that a finite double can hold, as far as its range goes.\<close>

definition in_f64_range :: "real \<Rightarrow> bool" where
  "in_f64_range v = (\<bar>v\<bar> < overflow_threshold \<and> (v = 0 \<or> 1 / 2 ^ 1074 \<le> \<bar>v\<bar>))"

fun fneg :: "f64 \<Rightarrow> f64" where
  "fneg (Finite x) = Finite (- x)"
| "fneg PInf = NInf"
| "fneg NInf = PInf"
| "fneg NaN = NaN"

fun fadd :: "f64 \<Rightarrow> f64 \<Rightarrow> f64" where
  "fadd (Finite x) (Finite y) = f64_sum (x + y)"
| "fadd NaN b = NaN"
| "fadd a NaN = NaN"
| "fadd PInf NInf = NaN"
| "fadd NInf PInf = NaN"
| "fadd PInf b = PInf"
| "fadd NInf b = NInf"
| "fadd a PInf = PInf"
| "fadd a NInf = NInf"

definition fsub :: "f64 \<Rightarrow> f64 \<Rightarrow> f64" where
  "fsub a b = fadd a (fneg b)"

text \<open>An infinity times or over a finite number takes the sign of the product.\<close>

definition signed_inf :: "bool \<Rightarrow> f64" where
  "signed_inf positive = (if positive then PInf else NInf)"


fun fdiv :: "f64 \<Rightarrow> f64 \<Rightarrow> f64" where
  "fdiv (Finite x) (Finite y) =
     (if y = 0 then (if x = 0 then NaN else signed_inf (0 < x)) else f64_prod (x / y))"
| "fdiv NaN b = NaN"
| "fdiv a NaN = NaN"
| "fdiv (Finite x) b = Finite 0"
| "fdiv PInf (Finite y) = signed_inf (0 \<le> y)"
| "fdiv NInf (Finite y) = signed_inf (y < 0)"
| "fdiv a b = NaN"


subsection \<open>Loading: \<open>load_data\<close>\<close>

definition monthly_order :: "string list" where
  "monthly_order = [''Jan'', ''Feb'', ''Mar'', ''Apr'', ''May'', ''Jun'',
                    ''Jul'', ''Aug'', ''Sep'', ''Oct'', ''Nov'', ''Dec'']"

text \<open>\<open>strftime("%b")\<close> of a month number.\<close>

definition month_abbr :: "nat \<Rightarrow> string" where
  "month_abbr m = (if 1 \<le> m \<and> m \<le> 12 then monthly_order ! (m - 1) else [])"

text \<open>
  The four assignments after the file is read. \<open>to_datetime\<close> is
  \<open>pd.to_datetime(_, errors="coerce")\<close> on one cell: \<open>None\<close> is NaT, the result for text
  that is not a date; an empty cell is NaT as well. The derived columns of a NaT row
  are missing.
\<close>

definition derive_columns :: "(string \<Rightarrow> timestamp option) \<Rightarrow> csv_row \<Rightarrow> obs" where
  "derive_columns to_datetime r =
     (let d = Option.bind (Date r) to_datetime
      in \<lparr>Date = d, Country = Country r, Temperature = Temperature r,
          CO2_Emissions = CO2_Emissions r, Sea_Level_Rise = Sea_Level_Rise r,
          Precipitation = Precipitation r, Humidity = Humidity r,
          Wind_Speed = Wind_Speed r,
          Year = map_option fst d,
          Month = map_option (fst \<circ> snd) d,
          MonthName = map_option (month_abbr \<circ> fst \<circ> snd) d\<rparr>)"

definition load_data :: "(string \<Rightarrow> timestamp option) \<Rightarrow> csv_row list \<Rightarrow> obs list" where
  "load_data to_datetime csv = map (derive_columns to_datetime) csv"

subsection \<open>Sidebar and filter\<close>

text \<open>
  \<open>min_year, max_year = int(df["Year"].min()), int(df["Year"].max())\<close>: the minimum
  and maximum skip missing years; with no year present both are NaN and \<open>int\<close> raises
  ValueError.
\<close>

definition year_bounds :: "obs list \<Rightarrow> error + (int \<times> int)" where
  "year_bounds df =
     (case dropna (map Year df) of
        [] \<Rightarrow> Inl ValueError
      | y # ys \<Rightarrow> Inr (fold min ys y, fold max ys y))"

text \<open>A comparison with a missing year is false.\<close>

definition year_ge :: "int option \<Rightarrow> int \<Rightarrow> bool" where
  "year_ge y b = (case y of None \<Rightarrow> False | Some v \<Rightarrow> v \<ge> b)"

definition year_le :: "int option \<Rightarrow> int \<Rightarrow> bool" where
  "year_le y b = (case y of None \<Rightarrow> False | Some v \<Rightarrow> v \<le> b)"

text \<open>\<open>Series.isin(values)\<close> on one cell; a missing country is in no list of names.\<close>

definition isin :: "string option \<Rightarrow> string list \<Rightarrow> bool" where
  "isin c names = (case c of None \<Rightarrow> False | Some s \<Rightarrow> s \<in> set names)"

text \<open>
  \<^verbatim>\<open>filtered_df = df[(df["Year"] >= year_range[0]) & (df["Year"] <= year_range[1])]
if selected_countries:
    filtered_df = filtered_df[filtered_df["Country"].isin(selected_countries)]\<close>
\<close>

definition filtered_df :: "obs list \<Rightarrow> int \<times> int \<Rightarrow> string list \<Rightarrow> obs list" where
  "filtered_df df year_range selected_countries =
     (let filtered = filter (\<lambda>r. year_ge (Year r) (fst year_range) \<and> year_le (Year r) (snd year_range)) df
      in if selected_countries \<noteq> []
         then filter (\<lambda>r. isin (Country r) selected_countries) filtered
         else filtered)"

text \<open>
  The filter predicate in the words of the specification: the year lies within the
  inclusive bounds, and the allow-list is empty or holds the row's country.
\<close>

definition spec_keep :: "int \<Rightarrow> int \<Rightarrow> string list \<Rightarrow> obs \<Rightarrow> bool" where
  "spec_keep year_min year_max allowlist r =
     ((case Year r of None \<Rightarrow> False | Some y \<Rightarrow> year_min \<le> y \<and> y \<le> year_max) \<and>
      (allowlist = [] \<or> (case Country r of None \<Rightarrow> False | Some c \<Rightarrow> c \<in> set allowlist)))"

subsection \<open>Key metrics, yearly trend and normalisation\<close>


text \<open>
  \<open>filtered_df.groupby("Year")\<close>: one group per year that occurs, in ascending order
  of the year; rows with a missing year are in no group.
\<close>

definition groupby_year :: "obs list \<Rightarrow> (int \<times> obs list) list" where
  "groupby_year fdf =
     map (\<lambda>y. (y, filter (\<lambda>r. Year r = Some y) fdf)) (sort (remdups (dropna (map Year fdf))))"

text \<open>
  \<open>yearly = filtered_df.groupby("Year")[numeric_cols].mean().reset_index()\<close>, read one
  column at a time: \<open>yearly fdf col\<close> is the pair of columns \<open>yearly["Year"]\<close> and
  \<open>yearly[col]\<close>.
\<close>

definition yearly :: "obs list \<Rightarrow> (obs \<Rightarrow> real option) \<Rightarrow> (int \<times> real option) list" where
  "yearly fdf col = map (\<lambda>(y, rows). (y, series_mean (map col rows))) (groupby_year fdf)"

text \<open>
  \<open>np.polyfit(x, y, 1)\<close>. Its argument checks raise TypeError on an empty \<open>x\<close> and on
  vectors of different lengths; the least-squares solve itself is LAPACK's, here the
  argument \<open>lstsq\<close>, which returns slope and intercept or raises.
\<close>

definition polyfit ::
  "(real list \<Rightarrow> real option list \<Rightarrow> error + real \<times> real) \<Rightarrow> real list \<Rightarrow> real option list \<Rightarrow> error + real \<times> real" where
  "polyfit lstsq x y =
     (if x = [] then Inl TypeError
      else if length x \<noteq> length y then Inl TypeError
      else lstsq x y)"

text \<open>
  The trend line of the first chart: \<open>z = np.polyfit(yearly["Year"], yearly[selected_variable], 1)\<close>,
  then \<open>p(yearly["Year"])\<close> with \<open>p = np.poly1d(z)\<close>. Nothing catches the exception of
  \<open>polyfit\<close>, so it ends the run of the script.
\<close>

definition trendline ::
  "(real list \<Rightarrow> real option list \<Rightarrow> error + real \<times> real) \<Rightarrow> obs list \<Rightarrow> (obs \<Rightarrow> real option) \<Rightarrow> error + real list" where
  "trendline lstsq fdf selected_variable =
     (let x = map (real_of_int \<circ> fst) (yearly fdf selected_variable);
          y = map snd (yearly fdf selected_variable)
      in case polyfit lstsq x y of
           Inl e \<Rightarrow> Inl e
         | Inr (slope, intercept) \<Rightarrow> Inr (map (\<lambda>v. slope * v + intercept) x))"

text \<open>
  \<open>(series - series.min()) / (series.max() - series.min() + 1e-9)\<close>, the normalisation
  of both the multi-variable trend chart and the box plots.
\<close>

definition minmax_normalize :: "real option list \<Rightarrow> f64 list" where
  "minmax_normalize series =
     map (\<lambda>v. fdiv (fsub (cell v) (cell (series_min series)))
                 (fadd (fsub (cell (series_max series)) (cell (series_min series))) (Finite (1 / 10 ^ 9))))
         series"

text \<open>Trend chart: \<open>series = yearly[col]\<close>.\<close>

definition normalized_trend :: "obs list \<Rightarrow> (obs \<Rightarrow> real option) \<Rightarrow> f64 list" where
  "normalized_trend fdf col = minmax_normalize (map snd (yearly fdf col))"

text \<open>Box plots: \<open>vals = filtered_df[col].dropna()\<close>.\<close>

definition normalized_box :: "obs list \<Rightarrow> (obs \<Rightarrow> real option) \<Rightarrow> f64 list" where
  "normalized_box fdf col = minmax_normalize (map Some (dropna (map col fdf)))"

text \<open>
  The magnitude below which a quotient rounds to zero, as a function on the exact
  value.
\<close>

definition flush :: "real \<Rightarrow> real" where
  "flush r = (if \<bar>r\<bar> \<le> 1 / 2 ^ 1075 then 0 else r)"

subsection \<open>Correlation: \<open>filtered_df[numeric_cols].corr()\<close>\<close>











subsection \<open>Regression: \<open>train_model\<close> and the predict button\<close>

definition features :: "(obs \<Rightarrow> real option) list" where
  "features = [CO2_Emissions, Sea_Level_Rise, Precipitation, Humidity, Wind_Speed]"

definition target :: "obs \<Rightarrow> real option" where
  "target = Temperature"

text \<open>
  \<open>X = data[features].dropna()\<close>: the rows in which all five feature cells are present,
  each with its index label (its position in \<open>data\<close>). The target column is not part
  of the frame that \<open>dropna\<close> sees.
\<close>

definition dropna_features :: "obs list \<Rightarrow> (nat \<times> real list) list" where
  "dropna_features data =
     map (\<lambda>(i, r). (i, dropna (map (\<lambda>f. f r) features)))
       (filter (\<lambda>(i, r). list_all (\<lambda>f. f r \<noteq> None) features) (enumerate 0 data))"

text \<open>\<open>y = data.loc[X.index, target]\<close>: the target cell of each kept label, missing or not.\<close>

definition loc_target :: "obs list \<Rightarrow> nat list \<Rightarrow> real option list" where
  "loc_target data index = map (\<lambda>i. target (data ! i)) index"

text \<open>
  \<open>StandardScaler\<close>: per column the mean and the population standard deviation of the
  rows it is fitted on. The deviation of a constant or nearly constant column is
  replaced by 1: scikit-learn tests the variance against
  \<open>n_samples * eps * var + (n_samples * mean * eps)^2\<close>, with \<open>eps = 2^-52\<close>. Fitting on
  no rows raises ValueError.
\<close>

record scaler =
  scaler_mean :: "real list"  \<comment> \<open>the attribute \<open>mean_\<close>\<close>
  scaler_scale :: "real list"  \<comment> \<open>the attribute \<open>scale_\<close>\<close>

definition column :: "real list list \<Rightarrow> nat \<Rightarrow> real list" where
  "column X j = map (\<lambda>row. row ! j) X"

definition np_mean :: "real list \<Rightarrow> real" where
  "np_mean xs = sum_list xs / real (length xs)"

definition np_var :: "real list \<Rightarrow> real" where
  "np_var xs = np_mean (map (\<lambda>x. (x - np_mean xs)\<^sup>2) xs)"

definition float_eps :: real where
  "float_eps = 1 / 2 ^ 52"

definition is_constant_feature :: "real \<Rightarrow> real \<Rightarrow> nat \<Rightarrow> bool" where
  "is_constant_feature var mean n_samples =
     (var \<le> real n_samples * float_eps * var + (real n_samples * mean * float_eps)\<^sup>2)"

definition handle_zeros_in_scale :: "real \<Rightarrow> bool \<Rightarrow> real" where
  "handle_zeros_in_scale scale constant_mask = (if constant_mask then 1 else scale)"

definition column_scale :: "real list \<Rightarrow> real" where
  "column_scale xs =
     handle_zeros_in_scale (sqrt (np_var xs)) (is_constant_feature (np_var xs) (np_mean xs) (length xs))"

definition scaler_fit :: "real list list \<Rightarrow> error + scaler" where
  "scaler_fit X =
     (if X = [] then Inl ValueError
      else Inr \<lparr>scaler_mean = map (\<lambda>j. np_mean (column X j)) [0..<length features],
               scaler_scale = map (\<lambda>j. column_scale (column X j)) [0..<length features]\<rparr>)"


definition transform_row :: "scaler \<Rightarrow> real list \<Rightarrow> real list" where
  "transform_row sc row = map (\<lambda>(x, m, s). (x - m) / s) (zip row (zip (scaler_mean sc) (scaler_scale sc)))"


text \<open>
  numpy's random generators, as far as \<open>train_test_split\<close> uses them: the constructor
  \<open>RandomState(seed)\<close>, the draw \<open>rng.permutation(n)\<close>, and the process-wide generator
  that is used when no seed is given. \<open>'g\<close> is the generator's state.
\<close>

record 'g np_random =
  RandomState :: "int \<Rightarrow> 'g"
  permutation :: "'g \<Rightarrow> nat \<Rightarrow> nat list"
  mtrand_rand :: 'g

definition check_random_state :: "'g np_random \<Rightarrow> int option \<Rightarrow> 'g" where
  "check_random_state np seed = (case seed of None \<Rightarrow> mtrand_rand np | Some s \<Rightarrow> RandomState np s)"

text \<open>Indexing by a list of positions; an index out of range raises IndexError.\<close>

definition take_rows :: "'a list \<Rightarrow> nat list \<Rightarrow> error + 'a list" where
  "take_rows xs idx =
     (if list_all (\<lambda>i. i < length xs) idx then Inr (map (\<lambda>i. xs ! i) idx) else Inl IndexError)"

text \<open>
  \<open>train_test_split(X, y, test_size=_, random_state=_)\<close>: \<open>n_test\<close> is the ceiling of
  \<open>test_size * n_samples\<close>, the rest is the training set, and an empty training set
  raises ValueError. The first \<open>n_test\<close> entries of one permutation of the positions
  are the test rows, the next \<open>n_train\<close> the training rows.
\<close>

definition split_indices :: "'g np_random \<Rightarrow> nat \<Rightarrow> real \<Rightarrow> int option \<Rightarrow> error + nat list \<times> nat list" where
  "split_indices np n_samples test_size random_state =
     (let n_test = nat \<lceil>test_size * real n_samples\<rceil>;
          n_train = n_samples - n_test
      in if n_train = 0 then Inl ValueError
         else let rng = check_random_state np random_state;
                  perm = permutation np rng n_samples;
                  ind_test = take n_test perm;
                  ind_train = take n_train (drop n_test perm)
              in Inr (ind_train, ind_test))"

definition train_test_split ::
  "'g np_random \<Rightarrow> 'a list \<Rightarrow> 'b list \<Rightarrow> real \<Rightarrow> int option \<Rightarrow> error + 'a list \<times> 'a list \<times> 'b list \<times> 'b list" where
  "train_test_split np X y test_size random_state =
     (if length y \<noteq> length X then Inl ValueError
      else case split_indices np (length X) test_size random_state of
        Inl e \<Rightarrow> Inl e
      | Inr (ind_train, ind_test) \<Rightarrow>
          (case take_rows X ind_train of Inl e \<Rightarrow> Inl e | Inr X_train \<Rightarrow>
          (case take_rows X ind_test of Inl e \<Rightarrow> Inl e | Inr X_test \<Rightarrow>
          (case take_rows y ind_train of Inl e \<Rightarrow> Inl e | Inr y_train \<Rightarrow>
          (case take_rows y ind_test of Inl e \<Rightarrow> Inl e | Inr y_test \<Rightarrow>
             Inr (X_train, X_test, y_train, y_test))))))"

text \<open>
  \<open>Ridge(alpha=1.0)\<close>. \<open>fit\<close> validates its input (a missing target raises ValueError)
  and then solves the penalised least-squares problem; the solver is the argument
  \<open>solve\<close>, called with the penalty. \<open>predict\<close> is the linear function of the fitted
  coefficients.
\<close>

record ridge =
  ridge_coef :: "real list"  \<comment> \<open>the attribute \<open>coef_\<close>\<close>
  ridge_intercept :: real  \<comment> \<open>the attribute \<open>intercept_\<close>\<close>

definition ridge_fit ::
  "(real \<Rightarrow> real list list \<Rightarrow> real list \<Rightarrow> ridge) \<Rightarrow> real \<Rightarrow> real list list \<Rightarrow> real option list \<Rightarrow> error + ridge" where
  "ridge_fit solve alpha X y =
     (if X = [] \<or> length y \<noteq> length X \<or> list_ex (\<lambda>v. v = None) y then Inl ValueError
      else Inr (solve alpha X (dropna y)))"

definition ridge_predict :: "ridge \<Rightarrow> real list list \<Rightarrow> real list" where
  "ridge_predict m X = map (\<lambda>row. sum_list (map2 (*) row (ridge_coef m)) + ridge_intercept m) X"

text \<open>
  \<open>mean_absolute_error\<close> and \<open>mean_squared_error\<close> of scikit-learn; both validate
  their arguments and raise ValueError on a missing target.
\<close>

definition mean_absolute_error :: "real option list \<Rightarrow> real list \<Rightarrow> error + real" where
  "mean_absolute_error y_true y_pred =
     (if y_true = [] \<or> length y_pred \<noteq> length y_true \<or> list_ex (\<lambda>v. v = None) y_true then Inl ValueError
      else Inr (np_mean (map2 (\<lambda>a b. \<bar>a - b\<bar>) (dropna y_true) y_pred)))"

definition mean_squared_error :: "real option list \<Rightarrow> real list \<Rightarrow> error + real" where
  "mean_squared_error y_true y_pred =
     (if y_true = [] \<or> length y_pred \<noteq> length y_true \<or> list_ex (\<lambda>v. v = None) y_true then Inl ValueError
      else Inr (np_mean (map2 (\<lambda>a b. (a - b)\<^sup>2) (dropna y_true) y_pred)))"

text \<open>
  \<open>r2_score\<close> of scikit-learn, which the script imports and never calls: one minus
  the residual sum of squares over the total sum of squares of the actual targets.
  With fewer than two samples the score is undefined (NaN); when the total sum of
  squares is zero it is 1 for a perfect prediction and 0 otherwise.
\<close>

definition r2_score :: "real list \<Rightarrow> real list \<Rightarrow> real option" where
  "r2_score y_true y_pred =
     (let numerator = sum_list (map2 (\<lambda>a b. (a - b)\<^sup>2) y_true y_pred);
          denominator = sum_list (map (\<lambda>a. (a - np_mean y_true)\<^sup>2) y_true)
      in if length y_true < 2 then None
         else if denominator \<noteq> 0 then Some (1 - numerator / denominator)
         else if numerator = 0 then Some 1
         else Some 0)"

record metrics =
  MAE :: real
  RMSE :: real
  R2 :: real

text \<open>What \<open>train_model\<close> returns: \<open>model, scaler, metrics, X_test, y_test, y_pred\<close>.\<close>

record trained =
  model :: ridge
  scaler :: scaler
  metrics :: metrics
  X_test :: "real list list"
  y_test :: "real option list"
  y_pred :: "real list"

text \<open>
  \<^verbatim>\<open>X = data[features].dropna()
y = data.loc[X.index, target]
scaler = StandardScaler()
X_scaled = scaler.fit_transform(X)
X_train, X_test, y_train, y_test = train_test_split(
    X_scaled, y, test_size=0.2, random_state=42)
model = Ridge(alpha=1.0)
model.fit(X_train, y_train)
y_pred = model.predict(X_test)
metrics = {"MAE": mean_absolute_error(y_test, y_pred),
           "RMSE": np.sqrt(mean_squared_error(y_test, y_pred)),
           "R2": 0.7134}
return model, scaler, metrics, X_test, y_test, y_pred\<close>
\<close>

definition train_model ::
  "'g np_random \<Rightarrow> (real \<Rightarrow> real list list \<Rightarrow> real list \<Rightarrow> ridge) \<Rightarrow> obs list \<Rightarrow> error + trained" where
  "train_model np solve data =
     (let X = dropna_features data;
          y = loc_target data (map fst X)
      in case scaler_fit (map snd X) of Inl e \<Rightarrow> Inl e | Inr sc \<Rightarrow>
         (let X_scaled = map (transform_row sc) (map snd X)
          in case train_test_split np X_scaled y (2 / 10) (Some 42) of Inl e \<Rightarrow> Inl e
             | Inr (X_train, X_test', y_train, y_test') \<Rightarrow>
         (case ridge_fit solve 1 X_train y_train of Inl e \<Rightarrow> Inl e | Inr m \<Rightarrow>
         (let y_pred' = ridge_predict m X_test'
          in case mean_absolute_error y_test' y_pred' of Inl e \<Rightarrow> Inl e | Inr mae \<Rightarrow>
            (case mean_squared_error y_test' y_pred' of Inl e \<Rightarrow> Inl e | Inr mse \<Rightarrow>
               Inr \<lparr>model = m, scaler = sc,
                    metrics = \<lparr>MAE = mae, RMSE = sqrt mse, R2 = 7134 / 10000\<rparr>,
                    X_test = X_test', y_test = y_test', y_pred = y_pred'\<rparr>)))))"

text \<open>
  The training rows of \<open>train_model\<close> before scaling: the rows of \<open>X\<close> at the training
  positions of the split.
\<close>

definition training_rows :: "'g np_random \<Rightarrow> obs list \<Rightarrow> error + real list list" where
  "training_rows np data =
     (let X = map snd (dropna_features data)
      in case split_indices np (length X) (2 / 10) (Some 42) of
           Inl e \<Rightarrow> Inl e
         | Inr (ind_train, ind_test) \<Rightarrow> take_rows X ind_train)"



text \<open>
  The predict button:
  \<^verbatim>\<open>input_data = np.array([[in_co2, in_sea, in_precip, in_humidity, in_wind]])
input_scaled = scaler.transform(input_data)
prediction = model.predict(input_scaled)[0]\<close>
\<close>



subsection \<open>Sample tables\<close>

definition sample_obs :: "int option \<Rightarrow> string \<Rightarrow> real \<Rightarrow> obs" where
  "sample_obs y c t =
     \<lparr>Date = map_option (\<lambda>v. (v, 1, 1)) y, Country = Some c, Temperature = Some t,
      CO2_Emissions = Some 400, Sea_Level_Rise = Some 3, Precipitation = Some 50,
      Humidity = Some 60, Wind_Speed = Some 10,
      Year = y, Month = map_option (\<lambda>_. 1) y, MonthName = map_option (\<lambda>_. ''Jan'') y\<rparr>"

text \<open>Two rows; the date of the second did not parse.\<close>

definition df_nat :: "obs list" where
  "df_nat = [sample_obs (Some 2000) ''Chad'' 20, sample_obs None ''Peru'' 25]"

text \<open>Two countries observed in different years.\<close>

definition df_two :: "obs list" where
  "df_two = [sample_obs (Some 2000) ''Chad'' 20, sample_obs (Some 2001) ''Peru'' 25]"

definition sample_csv :: "string \<Rightarrow> csv_row" where
  "sample_csv d =
     \<lparr>Date = Some d, Country = Some ''Chad'', Temperature = Some 20,
      CO2_Emissions = Some 400, Sea_Level_Rise = Some 3, Precipitation = Some 50,
      Humidity = Some 60, Wind_Speed = Some 10\<rparr>"

text \<open>A date parser for the sample tables: it knows one date.\<close>

definition sample_parser :: "string \<Rightarrow> timestamp option" where
  "sample_parser s = (if s = ''2000-01-01'' then Some (2000, 1, 1) else None)"



text \<open>A row of January 2000 with the given CO2 cell and target cell.\<close>

definition sample_row :: "real \<Rightarrow> real option \<Rightarrow> obs" where
  "sample_row co2 t =
     \<lparr>Date = Some (2000, 1, 1), Country = Some ''Chad'', Temperature = t,
      CO2_Emissions = Some co2, Sea_Level_Rise = Some 3, Precipitation = Some 50,
      Humidity = Some 60, Wind_Speed = Some 10,
      Year = Some 2000, Month = Some 1, MonthName = Some ''Jan''\<rparr>"


text \<open>Two rows with all five features; the target of the second is missing.\<close>

definition df_untargeted :: "obs list" where
  "df_untargeted = [sample_row 1 (Some 20), sample_row 1 None]"

text \<open>Ten equal rows.\<close>

definition df_flat :: "obs list" where
  "df_flat = replicate 10 (sample_row 1 (Some 20))"

text \<open>
  A generator whose state is the permutation it will draw: seeding gives the state
  \<open>perm\<close>, and the process-wide generator holds the empty state.
\<close>

definition np_fixed :: "nat list \<Rightarrow> (nat list) np_random" where
  "np_fixed perm = \<lparr>RandomState = (\<lambda>seed. perm), permutation = (\<lambda>g n. g), mtrand_rand = []\<rparr>"

text \<open>
  The ridge solution for training rows that are all equal, a single training row
  included: the centred features vanish, so every coefficient is zero and the
  intercept is the mean target.
\<close>

definition ridge_level :: "real \<Rightarrow> real list list \<Rightarrow> real list \<Rightarrow> ridge" where
  "ridge_level alpha X y = \<lparr>ridge_coef = [0, 0, 0, 0, 0], ridge_intercept = np_mean y\<rparr>"

section \<open>Filter engine\<close>

lemma filtered_df_filter:
  "filtered_df df (lo, hi) cs = filter (spec_keep lo hi cs) df"
  by (cases "cs = []")
     (auto simp: filtered_df_def spec_keep_def year_ge_def year_le_def isin_def Let_def
           split: option.splits intro!: filter_cong)

lemma fold_min_le:
  fixes y :: "'a::linorder"
  shows "v \<in> set (y # ys) \<Longrightarrow> fold min ys y \<le> v"
  unfolding Min.set_eq_fold [symmetric]
  by (rule Min_le) simp_all

lemma le_fold_max:
  fixes y :: "'a::linorder"
  shows "v \<in> set (y # ys) \<Longrightarrow> v \<le> fold max ys y"
  unfolding Max.set_eq_fold [symmetric]
  by (rule Max_ge) simp_all

lemma set_dropna: "set (dropna xs) = {x. Some x \<in> set xs}"
  by (induction xs rule: dropna.induct) auto

lemma year_bounds_cover:
  assumes "year_bounds df = Inr (lo, hi)" and "r \<in> set df" and "Year r = Some y"
  shows "lo \<le> y \<and> y \<le> hi"
proof -
  from assms(1) obtain v vs where d: "dropna (map Year df) = v # vs"
    and lo: "lo = fold min vs v" and hi: "hi = fold max vs v"
    by (auto simp: year_bounds_def split: list.splits)
  from assms(2,3) have "Some y \<in> set (map Year df)"
    by (metis image_eqI list.set_map)
  then have "y \<in> set (v # vs)"
    unfolding d [symmetric] by (simp add: set_dropna)
  then show ?thesis
    unfolding lo hi by (simp only: fold_min_le le_fold_max simp_thms)
qed

lemma full_range_keeps_dated:
  assumes "year_bounds df = Inr (lo, hi)"
  shows "filtered_df df (lo, hi) [] = filter (\<lambda>r. Year r \<noteq> None) df"
  unfolding filtered_df_filter
proof (rule filter_cong [OF refl])
  fix r assume "r \<in> set df"
  then show "spec_keep lo hi [] r = (Year r \<noteq> None)"
    using year_bounds_cover [OF assms, of r]
    by (auto simp: spec_keep_def split: option.splits)
qed

text \<open>
  C3 (as amended). The filter keeps exactly the rows that satisfy the specification's
  predicate, in the order of the input; with an empty allow-list only the year bounds
  restrict. With the full year range of the table and an empty allow-list the result
  is the rows whose year is present: the whole table when no year is missing.
\<close>

theorem filtered_df_keeps:
  "filtered_df df (year_min, year_max) allowlist = filter (spec_keep year_min year_max allowlist) df
   \<and> subseq (filtered_df df (year_min, year_max) allowlist) df
   \<and> filtered_df df (year_min, year_max) [] =
       filter (\<lambda>r. case Year r of None \<Rightarrow> False | Some y \<Rightarrow> year_min \<le> y \<and> y \<le> year_max) df
   \<and> (year_bounds df = Inr (year_min, year_max) \<longrightarrow>
        filtered_df df (year_min, year_max) [] = filter (\<lambda>r. Year r \<noteq> None) df)
   \<and> (year_bounds df = Inr (year_min, year_max) \<and> (\<forall>r\<in>set df. Year r \<noteq> None) \<longrightarrow>
        filtered_df df (year_min, year_max) [] = df)"
proof (intro conjI impI)
  show "filtered_df df (year_min, year_max) allowlist = filter (spec_keep year_min year_max allowlist) df"
    by (rule filtered_df_filter)
  show "subseq (filtered_df df (year_min, year_max) allowlist) df"
    by (simp add: filtered_df_filter)
  show "filtered_df df (year_min, year_max) [] =
          filter (\<lambda>r. case Year r of None \<Rightarrow> False | Some y \<Rightarrow> year_min \<le> y \<and> y \<le> year_max) df"
    unfolding filtered_df_filter by (rule filter_cong) (simp_all add: spec_keep_def)
next
  assume "year_bounds df = Inr (year_min, year_max)"
  then show "filtered_df df (year_min, year_max) [] = filter (\<lambda>r. Year r \<noteq> None) df"
    by (rule full_range_keeps_dated)
next
  assume "year_bounds df = Inr (year_min, year_max) \<and> (\<forall>r\<in>set df. Year r \<noteq> None)"
  then show "filtered_df df (year_min, year_max) [] = df"
    by (simp add: full_range_keeps_dated)
qed

theorem filtered_df_keeps_witness:
  "year_bounds df_two = Inr (2000, 2001)
   \<and> filtered_df df_two (2000, 2001) [] = df_two
   \<and> filtered_df df_two (2000, 2001) [''Peru''] = [sample_obs (Some 2001) ''Peru'' 25]"
  using filtered_df_keeps [of df_two 2000 2001 "[''Peru'']"]
  by (simp add: year_bounds_def df_two_def sample_obs_def spec_keep_def)

text \<open>
  C3, as stated, fails: the table \<open>df_nat\<close> has a row whose year is missing; its full
  year range is 2000 to 2000, and the filter with that range and an empty allow-list
  does not return the table.
\<close>

theorem filtered_df_full_range_counterexample:
  "year_bounds df_nat = Inr (2000, 2000) \<and> filtered_df df_nat (2000, 2000) [] \<noteq> df_nat"
  by (simp add: year_bounds_def filtered_df_def df_nat_def sample_obs_def
        year_ge_def year_le_def)

text \<open>
  C6. Every row of the filter's result is a row of the input and satisfies the
  predicate, and filtering the result again with the same bounds and allow-list
  changes nothing.
\<close>

theorem filtered_df_subset_idempotent:
  "set (filtered_df df (year_min, year_max) allowlist) \<subseteq> set df
   \<and> (\<forall>r \<in> set (filtered_df df (year_min, year_max) allowlist). spec_keep year_min year_max allowlist r)
   \<and> filtered_df (filtered_df df (year_min, year_max) allowlist) (year_min, year_max) allowlist
       = filtered_df df (year_min, year_max) allowlist"
  by (simp add: filtered_df_filter)

theorem filtered_df_subset_idempotent_witness:
  "filtered_df df_two (2000, 2000) [''Chad''] = [sample_obs (Some 2000) ''Chad'' 20]
   \<and> spec_keep 2000 2000 [''Chad''] (sample_obs (Some 2000) ''Chad'' 20)
   \<and> filtered_df [sample_obs (Some 2000) ''Chad'' 20] (2000, 2000) [''Chad'']
       = [sample_obs (Some 2000) ''Chad'' 20]"
proof -
  have res: "filtered_df df_two (2000, 2000) [''Chad''] = [sample_obs (Some 2000) ''Chad'' 20]"
    by (simp add: filtered_df_def df_two_def sample_obs_def year_ge_def year_le_def isin_def)
  show ?thesis
    using filtered_df_subset_idempotent [of df_two 2000 2000 "[''Chad'']"]
    unfolding res by simp
qed

text \<open>
  C10. A row whose date does not parse has no year after loading, so no filter keeps
  it: every kept row has a parsed date and a year. Hence the filter with an empty
  allow-list returns the whole loaded table only if every row's date parsed.
\<close>

theorem unparsed_date_excluded:
  "(Option.bind (Date r) to_datetime = None \<longrightarrow>
      derive_columns to_datetime r \<notin> set (filtered_df (load_data to_datetime csv) (year_min, year_max) allowlist))
   \<and> (\<forall>x \<in> set (filtered_df (load_data to_datetime csv) (year_min, year_max) allowlist).
        Date x \<noteq> None \<and> Year x \<noteq> None)
   \<and> (filtered_df (load_data to_datetime csv) (year_min, year_max) [] = load_data to_datetime csv \<longrightarrow>
        (\<forall>r \<in> set csv. Option.bind (Date r) to_datetime \<noteq> None))"
proof (intro conjI impI ballI)
  assume "Option.bind (Date r) to_datetime = None"
  then have "Year (derive_columns to_datetime r) = None"
    by (simp add: derive_columns_def)
  then show "derive_columns to_datetime r \<notin> set (filtered_df (load_data to_datetime csv) (year_min, year_max) allowlist)"
    by (simp add: filtered_df_filter spec_keep_def)
next
  fix x assume "x \<in> set (filtered_df (load_data to_datetime csv) (year_min, year_max) allowlist)"
  then have "x \<in> set (load_data to_datetime csv)" and "Year x \<noteq> None"
    by (auto simp: filtered_df_filter spec_keep_def split: option.splits)
  then show "Date x \<noteq> None" and "Year x \<noteq> None"
    by (auto simp: load_data_def derive_columns_def Let_def)
next
  fix r assume all: "filtered_df (load_data to_datetime csv) (year_min, year_max) [] = load_data to_datetime csv"
    and r: "r \<in> set csv"
  from r have "derive_columns to_datetime r \<in> set (load_data to_datetime csv)"
    by (simp add: load_data_def)
  then have "derive_columns to_datetime r \<in> set (filtered_df (load_data to_datetime csv) (year_min, year_max) [])"
    by (simp only: all)
  then have "Year (derive_columns to_datetime r) \<noteq> None"
    by (auto simp: filtered_df_filter spec_keep_def split: option.splits)
  then show "Option.bind (Date r) to_datetime \<noteq> None"
    by (simp add: derive_columns_def Let_def)
qed

theorem unparsed_date_excluded_witness:
  "Option.bind (Date (sample_csv ''n/a'')) sample_parser = None
   \<and> derive_columns sample_parser (sample_csv ''n/a'') \<notin>
       set (filtered_df (load_data sample_parser [sample_csv ''2000-01-01'', sample_csv ''n/a'']) (2000, 2000) [])
   \<and> filtered_df (load_data sample_parser [sample_csv ''2000-01-01'']) (2000, 2000) []
       = load_data sample_parser [sample_csv ''2000-01-01'']
   \<and> Option.bind (Date (sample_csv ''2000-01-01'')) sample_parser \<noteq> None"
proof -
  have a: "Option.bind (Date (sample_csv ''n/a'')) sample_parser = None"
    by (simp add: sample_csv_def sample_parser_def)
  have b: "filtered_df (load_data sample_parser [sample_csv ''2000-01-01'']) (2000, 2000) []
       = load_data sample_parser [sample_csv ''2000-01-01'']"
    by (simp add: filtered_df_def load_data_def derive_columns_def sample_csv_def
          sample_parser_def year_ge_def year_le_def)
  show ?thesis
    using a b
      unparsed_date_excluded [of "sample_csv ''n/a''" sample_parser
        "[sample_csv ''2000-01-01'', sample_csv ''n/a'']" 2000 2000 "[]"]
      unparsed_date_excluded [of "sample_csv ''n/a''" sample_parser
        "[sample_csv ''2000-01-01'']" 2000 2000 "[]"]
    by simp
qed

section \<open>Aggregation on an empty result\<close>

lemma trendline_empty: "trendline lstsq [] col = Inl TypeError"
  by (simp add: trendline_def yearly_def groupby_year_def polyfit_def)

text \<open>
  C4. The table \<open>df_two\<close> has the years 2000 to 2001 and the countries Chad and Peru, so
  the sidebar offers the year range 2000 to 2000 and the allow-list \<open>Peru\<close>. That filter
  keeps no row. The mean of the temperature column is then NaN, without an error, but
  the trend line of the first chart raises TypeError: \<open>np.polyfit\<close> refuses the empty
  vector of years, whatever the least-squares routine, and nothing catches it.
\<close>

theorem trendline_raises_on_empty_result:
  "year_bounds df_two = Inr (2000, 2001)
   \<and> filtered_df df_two (2000, 2000) [''Peru''] = []
   \<and> series_mean (map Temperature (filtered_df df_two (2000, 2000) [''Peru''])) = None
   \<and> trendline lstsq (filtered_df df_two (2000, 2000) [''Peru'']) Temperature = Inl TypeError"
proof -
  have e: "filtered_df df_two (2000, 2000) [''Peru''] = []"
    by (simp add: filtered_df_def df_two_def sample_obs_def year_ge_def year_le_def isin_def)
  have b: "year_bounds df_two = Inr (2000, 2001)"
    by (simp add: year_bounds_def df_two_def sample_obs_def)
  show ?thesis unfolding e using b by (simp add: trendline_empty series_mean_def)
qed

section \<open>Normalisation\<close>

lemma overflow_threshold_factor: "overflow_threshold = (2 ^ 54 - 1) * 2 ^ 970"
proof -
  have "(2::real) ^ 1024 = 2 ^ 54 * 2 ^ 970" by (simp add: power_add [symmetric])
  then show ?thesis by (simp add: overflow_threshold_def algebra_simps)
qed

lemma overflow_threshold_lower: "2 ^ 970 \<le> overflow_threshold"
proof -
  have "(1::real) * 2 ^ 970 \<le> (2 ^ 54 - 1) * 2 ^ 970"
    by (rule mult_right_mono) simp_all
  then show ?thesis unfolding overflow_threshold_factor by simp
qed

lemma overflow_threshold_gt_one: "1 < overflow_threshold"
proof -
  have "(1::real) < 2 ^ 970" by simp
  from this overflow_threshold_lower show ?thesis by (rule less_le_trans)
qed

lemma f64_sum_in_range:
  "- overflow_threshold < r \<Longrightarrow> r < overflow_threshold \<Longrightarrow> f64_sum r = Finite r"
  by (simp add: f64_sum_def)

lemma f64_prod_unit: "0 \<le> r \<Longrightarrow> r \<le> 1 \<Longrightarrow> f64_prod r = Finite (flush r)"
  using overflow_threshold_gt_one by (simp add: f64_prod_def flush_def)

lemma dropna_map_Some: "dropna (map Some xs) = xs"
  by (induction xs) simp_all

lemma series_min_present: "series_min (map Some (v # vs)) = Some (Min (set (v # vs)))"
proof -
  have "fold min vs v = Min (set (v # vs))" by (rule Min.set_eq_fold [symmetric])
  then show ?thesis by (simp add: series_min_def dropna_map_Some)
qed

lemma series_max_present: "series_max (map Some (v # vs)) = Some (Max (set (v # vs)))"
proof -
  have "fold max vs v = Max (set (v # vs))" by (rule Max.set_eq_fold [symmetric])
  then show ?thesis by (simp add: series_max_def dropna_map_Some)
qed

lemma unit_fraction:
  fixes v :: real
  assumes "lo \<le> v" "v \<le> hi"
  shows "0 \<le> (v - lo) / (hi - lo + 1 / 10 ^ 9) \<and> (v - lo) / (hi - lo + 1 / 10 ^ 9) \<le> 1"
proof -
  have pos: "0 < hi - lo + 1 / 10 ^ 9" using assms by (simp add: add_nonneg_pos)
  have "v - lo \<le> hi - lo + 1 / 10 ^ 9" using assms by simp
  with pos assms show ?thesis by (simp add: divide_le_eq)
qed

lemma flush_unit: "0 \<le> r \<Longrightarrow> r \<le> 1 \<Longrightarrow> 0 \<le> flush r \<and> flush r \<le> 1"
  by (simp add: flush_def)

text \<open>One value of the series, when the range plus \<open>1e-9\<close> does not overflow.\<close>

lemma minmax_cell:
  fixes v lo hi :: real
  assumes "lo \<le> v" "v \<le> hi" "hi - lo + 1 / 10 ^ 9 < overflow_threshold"
  shows "fdiv (fsub (Finite v) (Finite lo)) (fadd (fsub (Finite hi) (Finite lo)) (Finite (1 / 10 ^ 9)))
         = Finite (flush ((v - lo) / (hi - lo + 1 / 10 ^ 9)))"
proof -
  have t: "0 < overflow_threshold" using overflow_threshold_gt_one by simp
  have n: "fsub (Finite v) (Finite lo) = Finite (v - lo)"
    using assms t by (simp add: fsub_def f64_sum_in_range)
  have r: "fsub (Finite hi) (Finite lo) = Finite (hi - lo)"
    using assms t by (simp add: fsub_def f64_sum_in_range)
  have d: "fadd (Finite (hi - lo)) (Finite (1 / 10 ^ 9)) = Finite (hi - lo + 1 / 10 ^ 9)"
    using assms t by (simp add: f64_sum_in_range)
  have pos: "hi - lo + 1 / 10 ^ 9 \<noteq> 0" using assms by (simp add: add_nonneg_pos less_imp_neq [symmetric])
  from unit_fraction [OF assms(1,2)]
  have "f64_prod ((v - lo) / (hi - lo + 1 / 10 ^ 9)) = Finite (flush ((v - lo) / (hi - lo + 1 / 10 ^ 9)))"
    by (simp add: f64_prod_unit)
  then show ?thesis unfolding n r d using pos by simp
qed

lemma minmax_normalize_present:
  assumes "Max (set vs) - Min (set vs) + 1 / 10 ^ 9 < overflow_threshold"
  shows "minmax_normalize (map Some vs) =
     map (\<lambda>v. Finite (flush ((v - Min (set vs)) / (Max (set vs) - Min (set vs) + 1 / 10 ^ 9)))) vs"
proof (cases vs)
  case Nil
  then show ?thesis by (simp add: minmax_normalize_def)
next
  case (Cons a as)
  have "\<And>v. v \<in> set vs \<Longrightarrow>
      fdiv (fsub (Finite v) (Finite (Min (set vs))))
           (fadd (fsub (Finite (Max (set vs))) (Finite (Min (set vs)))) (Finite (1 / 10 ^ 9)))
      = Finite (flush ((v - Min (set vs)) / (Max (set vs) - Min (set vs) + 1 / 10 ^ 9)))"
    using assms by (intro minmax_cell) simp_all
  then show ?thesis
    unfolding Cons minmax_normalize_def series_min_present series_max_present
    by (simp add: cell_def comp_def)
qed

lemma minmax_normalize_constant:
  assumes "\<forall>v \<in> set vs. v = c"
  shows "minmax_normalize (map Some vs) = map (\<lambda>v. Finite 0) vs"
proof (cases vs)
  case Nil
  then show ?thesis by (simp add: minmax_normalize_def)
next
  case (Cons a as)
  have ne: "set vs \<noteq> {}" using Cons by simp
  have "Min (set vs) \<in> set vs" "Max (set vs) \<in> set vs"
    by (rule Min_in [OF finite_set ne], rule Max_in [OF finite_set ne])
  with assms have lo: "Min (set vs) = c" and hi: "Max (set vs) = c" by blast+
  have pre: "Max (set vs) - Min (set vs) + 1 / 10 ^ 9 < overflow_threshold"
    unfolding lo hi using overflow_threshold_gt_one by simp
  have "map (\<lambda>v. Finite (flush ((v - Min (set vs)) / (Max (set vs) - Min (set vs) + 1 / 10 ^ 9)))) vs
        = map (\<lambda>v. Finite 0) vs"
    unfolding lo hi using assms by (intro map_cong refl) (simp add: flush_def)
  with minmax_normalize_present [OF pre] show ?thesis by simp
qed

text \<open>
  C8 (as amended). On a series without missing values whose range plus \<open>1e-9\<close> is below
  the overflow threshold, the normalisation is \<open>(v - min) / (max - min + 1e-9)\<close>, a
  quotient too small for a double being zero, and every value of the result is a
  finite number between 0 and 1. A constant series is mapped to zeros: the denominator
  is \<open>1e-9\<close>, never zero.
\<close>

theorem minmax_normalize_unit_interval:
  "(Max (set vs) - Min (set vs) + 1 / 10 ^ 9 < overflow_threshold \<longrightarrow>
      minmax_normalize (map Some vs) =
        map (\<lambda>v. Finite (flush ((v - Min (set vs)) / (Max (set vs) - Min (set vs) + 1 / 10 ^ 9)))) vs
      \<and> (\<forall>x \<in> set (minmax_normalize (map Some vs)). \<exists>y. x = Finite y \<and> 0 \<le> y \<and> y \<le> 1))
   \<and> ((\<forall>v \<in> set vs. v = c) \<longrightarrow> (\<forall>x \<in> set (minmax_normalize (map Some vs)). x = Finite 0))"
proof (intro conjI impI ballI)
  assume pre: "Max (set vs) - Min (set vs) + 1 / 10 ^ 9 < overflow_threshold"
  then show "minmax_normalize (map Some vs) =
     map (\<lambda>v. Finite (flush ((v - Min (set vs)) / (Max (set vs) - Min (set vs) + 1 / 10 ^ 9)))) vs"
    by (rule minmax_normalize_present)
next
  fix x
  assume pre: "Max (set vs) - Min (set vs) + 1 / 10 ^ 9 < overflow_threshold"
    and "x \<in> set (minmax_normalize (map Some vs))"
  then obtain v where v: "v \<in> set vs"
    and x: "x = Finite (flush ((v - Min (set vs)) / (Max (set vs) - Min (set vs) + 1 / 10 ^ 9)))"
    unfolding minmax_normalize_present [OF pre] by auto
  from v have "Min (set vs) \<le> v" "v \<le> Max (set vs)" by simp_all
  from unit_fraction [OF this]
  have "0 \<le> flush ((v - Min (set vs)) / (Max (set vs) - Min (set vs) + 1 / 10 ^ 9))
        \<and> flush ((v - Min (set vs)) / (Max (set vs) - Min (set vs) + 1 / 10 ^ 9)) \<le> 1"
    by (intro flush_unit) simp_all
  with x show "\<exists>y. x = Finite y \<and> 0 \<le> y \<and> y \<le> 1" by blast
next
  fix x assume "\<forall>v \<in> set vs. v = c" and "x \<in> set (minmax_normalize (map Some vs))"
  then show "x = Finite 0" by (auto simp: minmax_normalize_constant)
qed

lemma flush_half: "1 / 2 \<le> r \<Longrightarrow> flush r = r"
proof -
  assume h: "1 / 2 \<le> r"
  have "(2::real) ^ 1 \<le> 2 ^ 1075" by (rule power_increasing) simp_all
  then have "(1::real) / 2 ^ 1075 \<le> 1 / 2" by (simp add: field_simps)
  moreover have "(1::real) / 2 ^ 1075 \<noteq> 1 / 2" by simp
  ultimately show ?thesis using h by (simp add: flush_def)
qed

theorem minmax_normalize_unit_interval_witness:
  "Max (set [1, 3, 2 :: real]) - Min (set [1, 3, 2]) + 1 / 10 ^ 9 < overflow_threshold
   \<and> minmax_normalize (map Some [1, 3, 2]) =
       [Finite 0, Finite (2 / (2 + 1 / 10 ^ 9)), Finite (1 / (2 + 1 / 10 ^ 9))]
   \<and> (\<exists>y. Finite (2 / (2 + 1 / 10 ^ 9)) = Finite y \<and> (0::real) \<le> y \<and> y \<le> 1)
   \<and> minmax_normalize (map Some [5, 5]) = [Finite 0, Finite 0]"
proof -
  have "(3::real) < 2 ^ 970" by simp
  from this overflow_threshold_lower have "3 < overflow_threshold" by (rule less_le_trans)
  then have pre: "Max (set [1, 3, 2 :: real]) - Min (set [1, 3, 2]) + 1 / 10 ^ 9 < overflow_threshold"
    by simp
  have f0: "flush 0 = 0" by (simp add: flush_def)
  have f1: "flush (2 / (2 + 1 / 10 ^ 9)) = 2 / (2 + 1 / 10 ^ 9)" by (rule flush_half) simp
  have f2: "flush (1 / (2 + 1 / 10 ^ 9)) = 1 / (2 + 1 / 10 ^ 9)"
  proof -
    have "(2::real) ^ 2 \<le> 2 ^ 1075" by (rule power_increasing) simp_all
    then have "(1::real) / 2 ^ 1075 \<le> 1 / 4" by (simp add: field_simps)
    moreover have "(1::real) / 4 < 1 / (2 + 1 / 10 ^ 9)" by simp
    ultimately show ?thesis by (simp add: flush_def)
  qed
  from minmax_normalize_unit_interval [of "[1, 3, 2]" 0] pre
  have eq: "minmax_normalize (map Some [1, 3, 2]) =
      map (\<lambda>v. Finite (flush ((v - Min (set [1, 3, 2])) / (Max (set [1, 3, 2]) - Min (set [1, 3, 2]) + 1 / 10 ^ 9)))) [1, 3, 2]"
    and r: "\<forall>x \<in> set (minmax_normalize (map Some [1, 3, 2])). \<exists>y. x = Finite y \<and> 0 \<le> y \<and> y \<le> 1"
    by blast+
  have e1: "minmax_normalize (map Some [1, 3, 2]) =
      [Finite 0, Finite (2 / (2 + 1 / 10 ^ 9)), Finite (1 / (2 + 1 / 10 ^ 9))]"
    unfolding eq using f0 f1 f2 by simp
  have h: "\<forall>v \<in> set [5, 5 :: real]. v = 5" by simp
  from minmax_normalize_unit_interval [of "[5, 5]" 5] h
  have c: "\<forall>x \<in> set (minmax_normalize (map Some [5, 5])). x = Finite 0" by blast
  have l: "length (minmax_normalize (map Some [5, 5 :: real])) = 2"
    by (simp add: minmax_normalize_def)
  from c have e2: "minmax_normalize (map Some [5, 5]) = [Finite 0, Finite 0]"
    by (simp add: minmax_normalize_def)
  have "Finite (2 / (2 + 1 / 10 ^ 9)) \<in> set (minmax_normalize (map Some [1, 3, 2]))"
    unfolding e1 by simp
  with r have "\<exists>y. Finite (2 / (2 + 1 / 10 ^ 9)) = Finite y \<and> (0::real) \<le> y \<and> y \<le> 1" by blast
  with pre e1 e2 show ?thesis by blast
qed

lemma minmax_normalize_opposite:
  assumes "0 < b" "overflow_threshold \<le> b + b"
  shows "minmax_normalize (map Some [- b, b]) = [Finite 0, NaN]"
proof -
  have mn: "series_min (map Some [- b, b]) = Some (- b)"
    using assms by (simp add: series_min_def)
  have mx: "series_max (map Some [- b, b]) = Some b"
    using assms by (simp add: series_max_def)
  have d: "fsub (Finite b) (Finite (- b)) = PInf"
    using assms by (simp add: fsub_def f64_sum_def)
  have z: "fsub (Finite (- b)) (Finite (- b)) = Finite 0"
    using overflow_threshold_gt_one by (simp add: fsub_def f64_sum_def)
  show ?thesis
    unfolding minmax_normalize_def mn mx by (simp add: cell_def d z)
qed

lemma in_f64_range_2_1023: "in_f64_range (2 ^ 1023) \<and> in_f64_range (- (2 ^ 1023))"
proof -
  have q: "(2::real) ^ 1023 = 2 ^ 53 * 2 ^ 970" by (simp add: power_add [symmetric])
  have "(2::real) ^ 53 * 2 ^ 970 < (2 ^ 54 - 1) * 2 ^ 970"
    by (rule mult_strict_right_mono) simp_all
  then have lt: "(2::real) ^ 1023 < overflow_threshold"
    unfolding overflow_threshold_factor q .
  have "(1::real) / 2 ^ 1074 \<le> 1" by simp
  also have "(1::real) \<le> 2 ^ 1023" by simp
  finally have small: "(1::real) / 2 ^ 1074 \<le> 2 ^ 1023" .
  have a: "\<bar>(2::real) ^ 1023\<bar> = 2 ^ 1023" "\<bar>- ((2::real) ^ 1023)\<bar> = 2 ^ 1023" by simp_all
  show ?thesis unfolding in_f64_range_def a using lt small by blast
qed

text \<open>
  C8, as stated, fails: \<open>-2^1023\<close> and \<open>2^1023\<close> are finite doubles with a nonzero range,
  but their difference overflows to infinity, so the first value of the result is 0
  and the second is infinity over infinity, NaN, which is not in \<open>[0, 1]\<close>.
\<close>

theorem minmax_normalize_overflow_counterexample:
  "in_f64_range (- (2 ^ 1023)) \<and> in_f64_range (2 ^ 1023)
   \<and> minmax_normalize (map Some [- (2 ^ 1023), 2 ^ 1023]) = [Finite 0, NaN]"
proof -
  have p: "(2::real) ^ 1024 = 2 ^ 1023 + 2 ^ 1023" by simp
  have "(2::real) ^ 1024 - 2 ^ 970 \<le> 2 ^ 1024" by simp
  then have big: "overflow_threshold \<le> 2 ^ 1023 + 2 ^ 1023"
    unfolding overflow_threshold_def p .
  have pos: "(0::real) < 2 ^ 1023" by simp
  from minmax_normalize_opposite [OF pos big] in_f64_range_2_1023
  show ?thesis by blast
qed

section \<open>Correlation matrix\<close>

























lemma mean_const:
  fixes c :: real
  assumes "xs \<noteq> []" and "\<forall>y \<in> set xs. y = c"
  shows "sum_list xs / real (length xs) = c"
proof -
  from assms(2) have "xs = replicate (length xs) c"
    by (simp add: replicate_length_same)
  then have "sum_list xs = real (length xs) * c"
    by (metis sum_list_replicate)
  with assms(1) show ?thesis by simp
qed














section \<open>Regression\<close>

lemma check_random_state_seeded:
  "check_random_state (np\<lparr>mtrand_rand := g\<rparr>) (Some seed) = check_random_state np (Some seed)"
  by (simp add: check_random_state_def)

lemma split_indices_seeded:
  "split_indices (np\<lparr>mtrand_rand := g\<rparr>) n test_size (Some seed) = split_indices np n test_size (Some seed)"
  by (simp add: split_indices_def check_random_state_def Let_def)

lemma train_test_split_seeded:
  "train_test_split (np\<lparr>mtrand_rand := g\<rparr>) X y test_size (Some seed) = train_test_split np X y test_size (Some seed)"
  by (simp add: train_test_split_def split_indices_seeded)

text \<open>
  C9. The split is seeded (\<open>random_state=42\<close>), so the generator it draws from is made
  from the seed and the process-wide generator is never read: whatever state that
  generator is in when \<open>train_model\<close> runs, the same data give the same partition, the
  same training rows and the same result (model, scaler, metrics, test rows and
  predictions).
\<close>

theorem train_model_deterministic:
  "train_model (np\<lparr>mtrand_rand := g1\<rparr>) solve data = train_model (np\<lparr>mtrand_rand := g2\<rparr>) solve data
   \<and> split_indices (np\<lparr>mtrand_rand := g1\<rparr>) n (2 / 10) (Some 42)
       = split_indices (np\<lparr>mtrand_rand := g2\<rparr>) n (2 / 10) (Some 42)
   \<and> training_rows (np\<lparr>mtrand_rand := g1\<rparr>) data = training_rows (np\<lparr>mtrand_rand := g2\<rparr>) data"
  unfolding train_model_def training_rows_def train_test_split_seeded split_indices_seeded
  by (intro conjI refl)

text \<open>
  Without a seed the partition does depend on the state of the process-wide generator.
\<close>

lemma unseeded_split_depends_on_state:
  "split_indices ((np_fixed [])\<lparr>mtrand_rand := [0, 1]\<rparr>) 2 (2 / 10) None = Inr ([1], [0])
   \<and> split_indices ((np_fixed [])\<lparr>mtrand_rand := [1, 0]\<rparr>) 2 (2 / 10) None = Inr ([0], [1])"
  by (simp add: split_indices_def check_random_state_def np_fixed_def Let_def)

text \<open>The definitions that a run of \<open>train_model\<close> on a sample table unfolds.\<close>

lemmas run_defs =
  train_model_def training_rows_def dropna_features_def sample_row_def features_def
  enumerate_eq_zip loc_target_def target_def scaler_fit_def column_def np_mean_def np_var_def
  column_scale_def handle_zeros_in_scale_def is_constant_feature_def float_eps_def
  train_test_split_def split_indices_def check_random_state_def
  np_fixed_def Let_def take_rows_def transform_row_def ridge_fit_def ridge_level_def
  ridge_predict_def mean_absolute_error_def mean_squared_error_def






text \<open>
  C5. The rows are dropped on the five feature columns only. In \<open>df_untargeted\<close> the
  second row has every feature and no target: it is kept, its missing target is in
  \<open>y\<close>, and \<open>train_model\<close> raises ValueError, from the fit when the row is a training
  row and from the first metric when it is the test row.
\<close>

theorem missing_target_kept:
  "map fst (dropna_features df_untargeted) = [0, 1]
   \<and> loc_target df_untargeted (map fst (dropna_features df_untargeted)) = [Some 20, None]
   \<and> train_model (np_fixed [0, 1]) solve df_untargeted = Inl ValueError
   \<and> train_model (np_fixed [1, 0]) solve df_untargeted = Inl ValueError"
  by (simp add: run_defs df_untargeted_def)


lemma take_rows_subset: "take_rows xs idx = Inr ys \<Longrightarrow> set ys \<subseteq> set xs"
  by (auto simp: take_rows_def list_all_iff split: if_splits)

lemma train_test_split_subset:
  assumes "train_test_split np X y ts rs = Inr (Xtr, Xte, ytr, yte)"
  shows "set Xtr \<subseteq> set X \<and> set Xte \<subseteq> set X \<and> set ytr \<subseteq> set y \<and> set yte \<subseteq> set y"
proof -
  from assms obtain it ie where
    "take_rows X it = Inr Xtr" "take_rows X ie = Inr Xte"
    "take_rows y it = Inr ytr" "take_rows y ie = Inr yte"
    by (auto simp: train_test_split_def split: if_splits sum.splits prod.splits)
  then show ?thesis by (simp add: take_rows_subset)
qed

lemma train_model_Inr:
  assumes "train_model np solve data = Inr t"
  shows "scaler_fit (map snd (dropna_features data)) = Inr (scaler t)
    \<and> (\<exists>X_train y_train.
          train_test_split np (map (transform_row (scaler t)) (map snd (dropna_features data)))
            (loc_target data (map fst (dropna_features data))) (2 / 10) (Some 42)
            = Inr (X_train, X_test t, y_train, y_test t)
          \<and> ridge_fit solve 1 X_train y_train = Inr (model t))
    \<and> y_pred t = ridge_predict (model t) (X_test t)
    \<and> R2 (metrics t) = 7134 / 10000"
  using assms
  by (auto simp: train_model_def Let_def split: sum.splits prod.splits)

lemma sum_sq_const:
  fixes c :: real
  assumes "\<forall>a \<in> set ys. a = c"
  shows "sum_list (map (\<lambda>a. (a - c)\<^sup>2) ys) = 0"
  using assms by (induction ys) simp_all

lemma r2_score_const:
  assumes "\<forall>a \<in> set ys. a = c"
  shows "r2_score ys ps \<noteq> Some (7134 / 10000)"
proof (cases "length ys < 2")
  case True
  then show ?thesis by (simp add: r2_score_def)
next
  case False
  then have "ys \<noteq> []" by auto
  from mean_const [OF this assms] have "np_mean ys = c" by (simp add: np_mean_def)
  with sum_sq_const [OF assms] have "sum_list (map (\<lambda>a. (a - np_mean ys)\<^sup>2) ys) = 0" by simp
  then show ?thesis by (simp add: r2_score_def Let_def)
qed

lemma dropna_features_index:
  assumes "p \<in> set (dropna_features data)"
  shows "fst p < length data"
  using assms by (auto simp: dropna_features_def in_set_enumerate_eq)

lemma loc_target_rows:
  "set (loc_target data (map fst (dropna_features data))) \<subseteq> target ` set data"
  using dropna_features_index [of _ data] by (auto simp: loc_target_def)

text \<open>
  C2. The reported coefficient of determination is the literal 0.7134. On the ten
  equal rows of \<open>df_flat\<close>, whatever the generator and the solver, the score of the
  predictions against the targets of the evaluation partition is not that number.
\<close>

theorem reported_r2_is_constant:
  "train_model np solve df_flat = Inr t \<longrightarrow>
     R2 (metrics t) = 7134 / 10000
   \<and> r2_score (dropna (y_test t)) (y_pred t) \<noteq> Some (7134 / 10000)"
proof
  assume run: "train_model np solve df_flat = Inr t"
  from train_model_Inr [OF run] obtain X_train y_train where
    split: "train_test_split np (map (transform_row (scaler t)) (map snd (dropna_features df_flat)))
            (loc_target df_flat (map fst (dropna_features df_flat))) (2 / 10) (Some 42)
            = Inr (X_train, X_test t, y_train, y_test t)"
    and r2: "R2 (metrics t) = 7134 / 10000"
    by blast
  from train_test_split_subset [OF split] loc_target_rows [of df_flat]
  have "set (y_test t) \<subseteq> target ` set df_flat" by blast
  also have "target ` set df_flat = {Some 20}"
    by (simp add: df_flat_def target_def sample_row_def)
  finally have "\<forall>a \<in> set (dropna (y_test t)). a = 20"
    by (auto simp: set_dropna)
  from r2_score_const [OF this] r2
  show "R2 (metrics t) = 7134 / 10000 \<and> r2_score (dropna (y_test t)) (y_pred t) \<noteq> Some (7134 / 10000)"
    by simp
qed

theorem reported_r2_is_constant_witness:
  "(case train_model (np_fixed [8, 1, 5, 0, 7, 2, 9, 4, 3, 6]) ridge_level df_flat of
      Inl e \<Rightarrow> False
    | Inr t \<Rightarrow>
        y_test t = [Some 20, Some 20] \<and> y_pred t = [20, 20]
        \<and> R2 (metrics t) = 7134 / 10000
        \<and> r2_score (dropna (y_test t)) (y_pred t) = Some 1)"
proof -
  have "\<exists>t. train_model (np_fixed [8, 1, 5, 0, 7, 2, 9, 4, 3, 6]) ridge_level df_flat = Inr t
      \<and> y_test t = [Some 20, Some 20] \<and> y_pred t = [20, 20]"
    by (simp add: run_defs df_flat_def eval_nat_numeral)
  then obtain t where run: "train_model (np_fixed [8, 1, 5, 0, 7, 2, 9, 4, 3, 6]) ridge_level df_flat = Inr t"
    and yt: "y_test t = [Some 20, Some 20]" and yp: "y_pred t = [20, 20]"
    by blast
  from reported_r2_is_constant [of "np_fixed [8, 1, 5, 0, 7, 2, 9, 4, 3, 6]" ridge_level t] run
  have r: "R2 (metrics t) = 7134 / 10000" by blast
  have s: "r2_score (dropna (y_test t)) (y_pred t) = Some 1"
    by (simp add: yt yp r2_score_def np_mean_def Let_def)
  show ?thesis unfolding run using yt yp r s by simp
qed










end
